theory Spec2Isabelle
  imports Main
begin

section \<open>JavaScript strings\<close>

text \<open>
  Strings are lists of 8-bit characters. \<open>toUpperCase\<close> is modelled on the ASCII letters;
  on the other Latin-1 characters JavaScript yields characters outside ASCII (or \<open>SS\<close>),
  which none of the comparisons made by the audited code can tell apart from the
  unchanged character.
\<close>

fun startsWith :: "string \<Rightarrow> string \<Rightarrow> bool" where
  "startsWith s [] = True"
| "startsWith [] (p # ps) = False"
| "startsWith (c # cs) (p # ps) = (c = p \<and> startsWith cs ps)"

fun includesStr :: "string \<Rightarrow> string \<Rightarrow> bool" where
  "includesStr [] t = (t = [])"
| "includesStr (c # cs) t = (startsWith (c # cs) t \<or> includesStr cs t)"

definition upperChar :: "char \<Rightarrow> char" where
  "upperChar c =
     (case map_of (zip ''abcdefghijklmnopqrstuvwxyz'' ''ABCDEFGHIJKLMNOPQRSTUVWXYZ'') c of
        Some u \<Rightarrow> u
      | None \<Rightarrow> c)"

definition toUpperCase :: "string \<Rightarrow> string" where
  "toUpperCase s = map upperChar s"

definition isDigit :: "char \<Rightarrow> bool" where
  "isDigit c = (let n = (of_char c :: nat) in 48 \<le> n \<and> n \<le> 57)"

text \<open>
  \<open>parseInt(s, 10)\<close> on a string of decimal digits. JavaScript rounds totals of more than
  15 digits to the nearest double; the model keeps the exact number.
\<close>

definition parseInt :: "string \<Rightarrow> nat" where
  "parseInt s = foldl (\<lambda>n c. 10 * n + ((of_char c :: nat) - 48)) 0 s"

fun joinStr :: "string \<Rightarrow> string list \<Rightarrow> string" where
  "joinStr sep [] = []"
| "joinStr sep [x] = x"
| "joinStr sep (x # y # ys) = x @ sep @ joinStr sep (y # ys)"

section \<open>SupabaseClient: table probe\<close>

text \<open>
  What \<open>fetch\<close> gives back: a rejected promise (\<open>Inl\<close> with the error's message) or a
  response, of which the code reads the status (\<open>response.ok\<close> is status 200..299) and
  some headers (\<open>headers.get\<close> is \<open>null\<close>, here \<open>None\<close>, for a header that is not there).
\<close>

definition ok :: "nat \<Rightarrow> bool" where
  "ok st = (200 \<le> st \<and> st \<le> 299)"

record response =
  status :: nat
  contentRange :: "string option"

record optionsResponse =
  allow :: "string option"
  accessControlAllowMethods :: "string option"

text \<open>
  The values \<open>true\<close>, \<open>false\<close> and \<open>'unknown'\<close> of a permission field. The fields
  \<open>insertP\<close>, \<open>updateP\<close> and \<open>deleteP\<close> of an access result are the properties \<open>insert\<close>,
  \<open>update\<close> and \<open>delete\<close>.
\<close>

datatype tristate = TTrue | TFalse | TUnknown

definition ofBool :: "bool \<Rightarrow> tristate" where
  "ofBool b = (if b then TTrue else TFalse)"

record accessResult =
  select :: bool
  insertP :: tristate
  updateP :: tristate
  deleteP :: tristate
  rowCount :: "nat option"
  error :: "string option"

text \<open>
  The capture group of \<open>contentRange.match(/\/(\d+|\*)/)\<close>: at the first slash that is
  followed by a digit or a star, the longest run of digits, or the star.
\<close>

fun matchTotalOrStar :: "string \<Rightarrow> string option" where
  "matchTotalOrStar [] = None"
| "matchTotalOrStar (c # cs) =
     (if c = CHR ''/'' \<and> cs \<noteq> [] \<and> isDigit (hd cs) then Some (takeWhile isDigit cs)
      else if c = CHR ''/'' \<and> cs \<noteq> [] \<and> hd cs = CHR ''*'' then Some ''*''
      else matchTotalOrStar cs)"

text \<open>The capture group of \<open>contentRange.match(/\/(\d+)/)\<close>.\<close>

fun matchTotal :: "string \<Rightarrow> string option" where
  "matchTotal [] = None"
| "matchTotal (c # cs) =
     (if c = CHR ''/'' \<and> cs \<noteq> [] \<and> isDigit (hd cs) then Some (takeWhile isDigit cs)
      else matchTotal cs)"

text \<open>\<open>a || b || ''\<close> on two header values: the first that is a non-empty string.\<close>

definition firstHeader :: "string option \<Rightarrow> string option \<Rightarrow> string" where
  "firstHeader a b =
     (case a of
        Some x \<Rightarrow> if x \<noteq> [] then x else (case b of Some y \<Rightarrow> y | None \<Rightarrow> [])
      | None \<Rightarrow> (case b of Some y \<Rightarrow> y | None \<Rightarrow> []))"

text \<open>
  \<open>testTableAccess\<close>, given what the GET (select) request and the OPTIONS request come
  back with.
\<close>

definition testTableAccess :: "string + response \<Rightarrow> string + optionsResponse \<Rightarrow> accessResult" where
  "testTableAccess selectFetch optionsFetch =
     (let results = \<lparr>select = False, insertP = TUnknown, updateP = TUnknown,
                      deleteP = TUnknown, rowCount = None, error = None\<rparr>;
          results =
            (case selectFetch of
               Inl e \<Rightarrow> results\<lparr>select := False\<rparr>
             | Inr selectResponse \<Rightarrow>
                 (let results = results\<lparr>select := (ok (status selectResponse)
                                                     \<or> status selectResponse = 416)\<rparr>
                  in case contentRange selectResponse of
                       None \<Rightarrow> results
                     | Some cr \<Rightarrow>
                         if cr = [] then results
                         else (case matchTotalOrStar cr of
                                 None \<Rightarrow> results
                               | Some m \<Rightarrow>
                                   if m \<noteq> ''*'' then results\<lparr>rowCount := Some (parseInt m)\<rparr>
                                   else results)));
          results =
            (case optionsFetch of
               Inl e \<Rightarrow>
                 results\<lparr>error :=
                   Some ''Could not determine write permissions (OPTIONS not supported)''\<rparr>
             | Inr optionsResponse \<Rightarrow>
                 (let allowHeader = firstHeader (allow optionsResponse)
                                      (accessControlAllowMethods optionsResponse);
                      allowedMethods = toUpperCase allowHeader
                  in results\<lparr>insertP := ofBool (includesStr allowedMethods ''POST''),
                             updateP := ofBool (includesStr allowedMethods ''PATCH''),
                             deleteP := ofBool (includesStr allowedMethods ''DELETE'')\<rparr>))
      in results)"

section \<open>SupabaseClient: row-count probe\<close>

text \<open>
  \<open>fetchTableRowCount\<close>, given what the HEAD request and the fallback GET request come
  back with (the fallback is only sent when the HEAD answer gave no count).
\<close>

definition countOf :: "response \<Rightarrow> nat option" where
  "countOf r =
     (case contentRange r of
        None \<Rightarrow> None
      | Some cr \<Rightarrow> if cr = [] then None else map_option parseInt (matchTotal cr))"

definition fetchTableRowCount :: "string + response \<Rightarrow> string + response \<Rightarrow> nat option" where
  "fetchTableRowCount headFetch fallbackFetch =
     (case headFetch of
        Inl e \<Rightarrow> None
      | Inr r \<Rightarrow>
          (case (if ok (status r) \<or> status r = 206 then countOf r else None) of
             Some n \<Rightarrow> Some n
           | None \<Rightarrow>
               (case fallbackFetch of
                  Inl e \<Rightarrow> None
                | Inr fallbackResponse \<Rightarrow>
                    if ok (status fallbackResponse) then countOf fallbackResponse else None)))"

text \<open>
  Step 3.5 of \<open>App.runAudit\<close> for one table: the row-count probe runs only for an access
  result whose \<open>select\<close> is set, and a count it returns replaces \<open>rowCount\<close>.
\<close>

definition runAudit_rowCount ::
    "accessResult \<Rightarrow> string + response \<Rightarrow> string + response \<Rightarrow> accessResult" where
  "runAudit_rowCount access headFetch fallbackFetch =
     (if select access
      then (case fetchTableRowCount headFetch fallbackFetch of
              Some count \<Rightarrow> access\<lparr>rowCount := Some count\<rparr>
            | None \<Rightarrow> access)
      else access)"

section \<open>SupabaseClient: RPC function probe\<close>

record functionResult =
  accessible :: bool
  requiresAuth :: tristate
  fnError :: "string option"
  testResponse :: "nat option"

text \<open>\<open>testRPCFunction\<close>, given what the POST request comes back with.\<close>

definition testRPCFunction :: "string + nat \<Rightarrow> functionResult" where
  "testRPCFunction postFetch =
     (let result = \<lparr>accessible = True, requiresAuth = TFalse, fnError = None,
                     testResponse = None\<rparr>
      in case postFetch of
           Inl e \<Rightarrow> result\<lparr>fnError := Some e, requiresAuth := TUnknown\<rparr>
         | Inr st \<Rightarrow>
             (let result = result\<lparr>testResponse := Some st\<rparr>
              in if st = 401 \<or> st = 403 then result\<lparr>requiresAuth := TTrue\<rparr>
                 else if st = 404 then result\<lparr>accessible := False, requiresAuth := TUnknown\<rparr>
                 else result\<lparr>requiresAuth := TFalse\<rparr>))"

section \<open>SupabaseClient: storage bucket probe\<close>

text \<open>
  The list probe of \<open>testBucketAccess\<close>: the response's status and what
  \<open>(await listResponse.json()).length\<close> evaluates to: \<open>Inl ()\<close> when reading the body
  throws (no JSON, or the JSON value \<open>null\<close>), \<open>Inr None\<close> for \<open>undefined\<close> (a value
  without a length), \<open>Inr (Some n)\<close> for an array or string of length \<open>n\<close>.
\<close>

record listResponse =
  list_status :: nat
  list_length :: "unit + nat option"

record bucketAccess =
  canList :: bool
  canUpload :: "bool option"
  canDelete :: "bool option"
  isPublic :: bool
  fileCount :: "nat option"

text \<open>
  \<open>canUpload\<close> and \<open>canDelete\<close> hold the string \<open>'unknown'\<close> throughout: \<open>None\<close>.
  \<open>fileCount\<close> is \<open>None\<close> for \<open>null\<close> and for \<open>undefined\<close>.
\<close>

definition testBucketAccess :: "string + listResponse \<Rightarrow> string + nat \<Rightarrow> bucketAccess" where
  "testBucketAccess listFetch publicFetch =
     (let result = \<lparr>canList = False, canUpload = None, canDelete = None,
                     isPublic = False, fileCount = None\<rparr>;
          result = (case listFetch of
                      Inl e \<Rightarrow> result
                    | Inr r \<Rightarrow>
                        if ok (list_status r)
                        then (case list_length r of
                                Inl u \<Rightarrow> result\<lparr>canList := True\<rparr>
                              | Inr n \<Rightarrow> result\<lparr>canList := True, fileCount := n\<rparr>)
                        else result);
          result = (case publicFetch of
                      Inl e \<Rightarrow> result
                    | Inr st \<Rightarrow> result\<lparr>isPublic := (st \<noteq> 400 \<and> st \<noteq> 404)\<rparr>)
      in result)"

section \<open>JSON documents\<close>

text \<open>
  The value \<open>response.json()\<close> yields. An object is the list of its own properties in the
  order \<open>Object.entries\<close> enumerates them, with distinct keys. A number is kept as the
  two things this code can see of it: whether it is zero (\<open>0\<close> and \<open>-0\<close> are falsy, every
  other number is truthy) and the string that JavaScript's conversion of numbers to
  strings gives for it (\<open>1.5\<close>, \<open>-3\<close>, \<open>1e+21\<close>). A property that is not there reads as
  \<open>undefined\<close>, here \<open>None\<close>.
\<close>

datatype json =
    JNull
  | JBool bool
  | JNum (isZero: bool) (printed: string)
  | JStr string
  | JArr "json list"
  | JObj "(string \<times> json) list"

datatype jsError = TypeError

fun truthy :: "json \<Rightarrow> bool" where
  "truthy JNull = False"
| "truthy (JBool b) = b"
| "truthy (JNum z p) = (\<not> z)"
| "truthy (JStr s) = (s \<noteq> [])"
| "truthy (JArr xs) = True"
| "truthy (JObj kvs) = True"

text \<open>\<open>Some v\<close> for a truthy value \<open>v\<close>; \<open>None\<close> for \<open>undefined\<close> and the falsy values.\<close>

definition truthyVal :: "json option \<Rightarrow> json option" where
  "truthyVal v = (case v of None \<Rightarrow> None | Some j \<Rightarrow> if truthy j then Some j else None)"

text \<open>\<open>a || b\<close> and \<open>a || literal\<close>.\<close>

definition orElse :: "json option \<Rightarrow> json option \<Rightarrow> json option" where
  "orElse a b = (case truthyVal a of Some j \<Rightarrow> Some j | None \<Rightarrow> b)"

definition orDefault :: "json option \<Rightarrow> json \<Rightarrow> json" where
  "orDefault a d = (case truthyVal a of Some j \<Rightarrow> j | None \<Rightarrow> d)"

definition digitChar :: "nat \<Rightarrow> char" where
  "digitChar d = ''0123456789'' ! d"

function stringOfNat :: "nat \<Rightarrow> string" where
  "stringOfNat n =
     (if n < 10 then [digitChar n] else stringOfNat (n div 10) @ [digitChar (n mod 10)])"
  by pat_completeness auto
termination
  by (relation "measure id") auto

declare stringOfNat.simps [simp del]

text \<open>An array index written as a property key: decimal digits without a leading zero.\<close>

definition parseIndex :: "string \<Rightarrow> nat option" where
  "parseIndex k =
     (if k \<noteq> [] \<and> list_all isDigit k \<and> (k = ''0'' \<or> hd k \<noteq> CHR ''0'')
      then Some (parseInt k) else None)"

text \<open>
  The length of an array or string as a number: lengths stay far below \<open>10^21\<close>, where a
  whole number prints as its decimal digits.
\<close>

definition lengthNum :: "nat \<Rightarrow> json" where
  "lengthNum n = JNum (n = 0) (stringOfNat n)"

text \<open>
  Reading the property \<open>k\<close> of a value that is not \<open>null\<close>. Primitives have none of the
  properties the parser names; arrays and strings have \<open>length\<close> and their indices.
  Members inherited from \<open>Object.prototype\<close> (reached only through
  \<open>spec.definitions[tableName]\<close>) are functions without \<open>properties\<close>, which the parser
  treats as it treats an absent definition.
\<close>

fun getProp :: "json \<Rightarrow> string \<Rightarrow> json option" where
  "getProp (JObj kvs) k = map_of kvs k"
| "getProp (JArr xs) k =
     (if k = ''length'' then Some (lengthNum (length xs))
      else (case parseIndex k of
              Some i \<Rightarrow> if i < length xs then Some (xs ! i) else None
            | None \<Rightarrow> None))"
| "getProp (JStr s) k =
     (if k = ''length'' then Some (lengthNum (length s))
      else (case parseIndex k of
              Some i \<Rightarrow> if i < length s then Some (JStr [s ! i]) else None
            | None \<Rightarrow> None))"
| "getProp v k = None"

text \<open>\<open>x?.k\<close>: \<open>undefined\<close> when \<open>x\<close> is \<open>undefined\<close> or \<open>null\<close>.\<close>

definition optProp :: "json option \<Rightarrow> string \<Rightarrow> json option" where
  "optProp x k = (case x of None \<Rightarrow> None | Some JNull \<Rightarrow> None | Some v \<Rightarrow> getProp v k)"

text \<open>\<open>Object.entries(v)\<close>, which throws on \<open>null\<close>.\<close>

fun entries :: "json \<Rightarrow> (string \<times> json) list" where
  "entries (JObj kvs) = kvs"
| "entries (JArr xs) = zip (map stringOfNat [0..<length xs]) xs"
| "entries (JStr s) = zip (map stringOfNat [0..<length s]) (map (\<lambda>c. JStr [c]) s)"
| "entries v = []"

definition entriesE :: "json \<Rightarrow> jsError + (string \<times> json) list" where
  "entriesE v = (if v = JNull then Inl TypeError else Inr (entries v))"

text \<open>\<open>for (const x of v)\<close>: arrays and strings are iterable, nothing else is.\<close>

fun iterate :: "json \<Rightarrow> jsError + json list" where
  "iterate (JArr xs) = Inr xs"
| "iterate (JStr s) = Inr (map (\<lambda>c. JStr [c]) s)"
| "iterate v = Inl TypeError"

text \<open>The results of a list of steps, or the first error among them.\<close>

fun sequenceE :: "(jsError + 'a) list \<Rightarrow> jsError + 'a list" where
  "sequenceE [] = Inr []"
| "sequenceE (r # rs) =
     (case r of
        Inl e \<Rightarrow> Inl e
      | Inr x \<Rightarrow> (case sequenceE rs of Inl e \<Rightarrow> Inl e | Inr xs \<Rightarrow> Inr (x # xs)))"

text \<open>
  The string a value becomes inside a template literal. An array joins the strings of
  its elements with commas, \<open>null\<close> elements giving the empty string. An object is turned
  into a string by its \<open>toString\<close> method: the inherited one gives \<open>[object Object]\<close>; an
  own member \<open>toString\<close> of a parsed document is never a function, \<open>valueOf\<close> then gives
  back the object (or is no function either), and the conversion throws a TypeError.
\<close>

fun toStringJS :: "json \<Rightarrow> jsError + string" where
  "toStringJS JNull = Inr ''null''"
| "toStringJS (JBool b) = Inr (if b then ''true'' else ''false'')"
| "toStringJS (JNum z p) = Inr p"
| "toStringJS (JStr s) = Inr s"
| "toStringJS (JArr xs) =
     (case sequenceE (map (\<lambda>x. if x = JNull then Inr [] else toStringJS x) xs) of
        Inl e \<Rightarrow> Inl e
      | Inr ss \<Rightarrow> Inr (joinStr '','' ss))"
| "toStringJS (JObj kvs) =
     (if map_of kvs ''toString'' \<noteq> None then Inl TypeError else Inr ''[object Object]'')"

text \<open>A loop whose body may throw: the first error ends it.\<close>

fun foldE :: "('a \<Rightarrow> 's \<Rightarrow> jsError + 's) \<Rightarrow> 'a list \<Rightarrow> 's \<Rightarrow> jsError + 's" where
  "foldE f [] s = Inr s"
| "foldE f (x # xs) s = (case f x s of Inl e \<Rightarrow> Inl e | Inr s' \<Rightarrow> foldE f xs s')"

section \<open>Analyzer: parsing the OpenAPI specification\<close>

record column =
  colName :: string
  colType :: json
  colFormat :: json
  colDescription :: json
  primaryKey :: "bool option"

record operation =
  opMethod :: string
  opDescription :: json

record tableSchema =
  name :: string
  columns :: "column list"
  operations :: "operation list"
  description :: string

record rpcParam =
  paramName :: string
  paramType :: json
  paramFormat :: json
  required :: bool
  paramDescription :: json

record rpcFunction =
  fnName :: string
  fnDescription :: json
  parameters :: "rpcParam list"
  returnType :: json

record catalog =
  tables :: "tableSchema list"
  functions' :: "rpcFunction list"
  rawSpec :: json

definition reservedParam :: "string \<Rightarrow> bool" where
  "reservedParam n =
     (startsWith n ''select'' \<or> startsWith n ''order'' \<or> startsWith n ''limit''
      \<or> startsWith n ''offset'' \<or> startsWith n ''on_conflict'')"

text \<open>\<open>table.columns.find(c => c.name === n)\<close> finds a column.\<close>

definition hasColumn :: "column list \<Rightarrow> string \<Rightarrow> bool" where
  "hasColumn cols n = list_ex (\<lambda>c. colName c = n) cols"

text \<open>
  The body of the loop over \<open>details.parameters\<close>: a query parameter that is not a
  reserved one and not yet a column becomes a column. Reading \<open>param.in\<close> throws on
  \<open>null\<close>; \<open>param.name.startsWith\<close> throws when the name is truthy and not a string.
\<close>

definition paramColumn :: "json \<Rightarrow> column list \<Rightarrow> jsError + column list" where
  "paramColumn param cols =
     (if param = JNull then Inl TypeError
      else if getProp param ''in'' = Some (JStr ''query'')
      then (case truthyVal (getProp param ''name'') of
              None \<Rightarrow> Inr cols
            | Some (JStr n) \<Rightarrow>
                if reservedParam n then Inr cols
                else if hasColumn cols n then Inr cols
                else (let schema = getProp param ''schema''
                      in Inr (cols @
                           [\<lparr>colName = n,
                             colType = orDefault (orElse (optProp schema ''type'')
                                                   (optProp schema ''format'')) (JStr ''unknown''),
                             colFormat = orDefault (optProp schema ''format'') JNull,
                             colDescription = orDefault (getProp param ''description'') (JStr []),
                             primaryKey = None\<rparr>]))
            | Some v \<Rightarrow> Inl TypeError)
      else Inr cols)"

definition isOperation :: "string \<Rightarrow> bool" where
  "isOperation op = (op \<in> set [''GET'', ''POST'', ''PATCH'', ''DELETE''])"

text \<open>The body of the loop over \<open>Object.entries(methods)\<close>, on the operations and columns of the table.\<close>

definition methodStep ::
    "string \<times> json \<Rightarrow> operation list \<times> column list \<Rightarrow> jsError + operation list \<times> column list" where
  "methodStep md st =
     (let m = fst md; details = snd md; ops = fst st; cols = snd st; op = toUpperCase m
      in if details = JNull then Inl TypeError
         else (let ops' = (if isOperation op
                           then ops @ [\<lparr>opMethod = op,
                                        opDescription =
                                          orDefault (orElse (getProp details ''description'')
                                                       (getProp details ''summary'')) (JStr [])\<rparr>]
                           else ops)
               in case truthyVal (getProp details ''parameters'') of
                    None \<Rightarrow> Inr (ops', cols)
                  | Some ps \<Rightarrow>
                      (case iterate ps of
                         Inl e \<Rightarrow> Inl e
                       | Inr params \<Rightarrow>
                           (case foldE paramColumn params cols of
                              Inl e \<Rightarrow> Inl e
                            | Inr cols' \<Rightarrow> Inr (ops', cols')))))"

text \<open>
  \<open>req?.includes(n) || false\<close>: \<open>false\<close> without a \<open>required\<close> member, substring search on
  a string, membership in an array, and a TypeError on any other value.
\<close>

definition requiredIncludes :: "json option \<Rightarrow> string \<Rightarrow> jsError + bool" where
  "requiredIncludes req n =
     (case req of
        None \<Rightarrow> Inr False
      | Some JNull \<Rightarrow> Inr False
      | Some (JStr s) \<Rightarrow> Inr (includesStr s n)
      | Some (JArr xs) \<Rightarrow> Inr (JStr n \<in> set xs)
      | Some v \<Rightarrow> Inl TypeError)"

text \<open>The body of the loop over the properties of the table's definition \<open>d\<close>.\<close>

definition definitionColumn :: "json \<Rightarrow> string \<times> json \<Rightarrow> column list \<Rightarrow> jsError + column list" where
  "definitionColumn d kv cols =
     (let cn = fst kv; colSchema = snd kv
      in if hasColumn cols cn then Inr cols
         else if colSchema = JNull then Inl TypeError
         else (case requiredIncludes (getProp d ''required'') cn of
                 Inl e \<Rightarrow> Inl e
               | Inr pk \<Rightarrow>
                   Inr (cols @
                     [\<lparr>colName = cn,
                       colType = orDefault (getProp colSchema ''type'') (JStr ''unknown''),
                       colFormat = orDefault (getProp colSchema ''format'') JNull,
                       colDescription = orDefault (getProp colSchema ''description'') (JStr []),
                       primaryKey = Some pk\<rparr>])))"

definition definitionColumns :: "json \<Rightarrow> string \<Rightarrow> column list \<Rightarrow> jsError + column list" where
  "definitionColumns spec tableName cols =
     (case truthyVal (optProp (getProp spec ''definitions'') tableName) of
        None \<Rightarrow> Inr cols
      | Some d \<Rightarrow>
          (case truthyVal (getProp d ''properties'') of
             None \<Rightarrow> Inr cols
           | Some props \<Rightarrow> foldE (definitionColumn d) (entries props) cols))"

text \<open>\<open>path.replace(/^\//, '').replace(/\/$/, '')\<close>.\<close>

definition tableNameOf :: "string \<Rightarrow> string" where
  "tableNameOf path =
     (let p = (if path \<noteq> [] \<and> hd path = CHR ''/'' then tl path else path)
      in if p \<noteq> [] \<and> last p = CHR ''/'' then butlast p else p)"

text \<open>The body of the first loop over \<open>Object.entries(spec.paths)\<close>.\<close>

definition parseTable :: "json \<Rightarrow> string \<times> json \<Rightarrow> tableSchema list \<Rightarrow> jsError + tableSchema list" where
  "parseTable spec pm tbls =
     (let path = fst pm; methods = snd pm
      in if startsWith path ''/rpc/'' then Inr tbls
         else (let tableName = tableNameOf path
               in if tableName = [] \<or> includesStr tableName ''/'' then Inr tbls
                  else (case entriesE methods of
                          Inl e \<Rightarrow> Inl e
                        | Inr ms \<Rightarrow>
                            (case foldE methodStep ms ([], []) of
                               Inl e \<Rightarrow> Inl e
                             | Inr oc \<Rightarrow>
                                 (case definitionColumns spec tableName (snd oc) of
                                    Inl e \<Rightarrow> Inl e
                                  | Inr cols \<Rightarrow>
                                      Inr (if fst oc \<noteq> []
                                           then tbls @ [\<lparr>name = tableName, columns = cols,
                                                          operations = fst oc, description = []\<rparr>]
                                           else tbls))))))"

text \<open>
  The capture group of \<open>ref.match(/\/([^/]+)$/)\<close>: what follows the last slash, when
  there is a slash and something follows it.
\<close>

fun lastSegment :: "string \<Rightarrow> string option" where
  "lastSegment [] = None"
| "lastSegment (c # cs) =
     (if c = CHR ''/'' \<and> cs \<noteq> [] \<and> CHR ''/'' \<notin> set cs then Some cs else lastSegment cs)"

text \<open>\<open>ref.match\<close> on a truthy \<open>$ref\<close>: a TypeError unless it is a string.\<close>

definition refName :: "json \<Rightarrow> jsError + string option" where
  "refName r = (case r of JStr s \<Rightarrow> Inr (lastSegment s) | v \<Rightarrow> Inl TypeError)"

text \<open>The return type of a function from its operation object \<open>postMethod\<close>.\<close>

definition resolveReturnType :: "json \<Rightarrow> jsError + json" where
  "resolveReturnType postMethod =
     (case truthyVal (optProp (optProp (getProp postMethod ''responses'') ''200'') ''schema'') of
        None \<Rightarrow> Inr (JStr ''void'')
      | Some responseSchema \<Rightarrow>
          (case truthyVal (getProp responseSchema ''$ref'') of
             Some r \<Rightarrow>
               (case refName r of
                  Inl e \<Rightarrow> Inl e
                | Inr refMatch \<Rightarrow>
                    Inr (JStr (case refMatch of Some n \<Rightarrow> n | None \<Rightarrow> ''object'')))
           | None \<Rightarrow>
               (case (if getProp responseSchema ''type'' = Some (JStr ''array'')
                      then truthyVal (getProp responseSchema ''items'') else None) of
                  Some items \<Rightarrow>
                    (case truthyVal (getProp items ''$ref'') of
                       Some r \<Rightarrow>
                         (case refName r of
                            Inl e \<Rightarrow> Inl e
                          | Inr refMatch \<Rightarrow>
                              Inr (JStr ((case refMatch of Some n \<Rightarrow> n | None \<Rightarrow> ''object'')
                                         @ ''[]'')))
                     | None \<Rightarrow>
                         (case toStringJS (orDefault (getProp items ''type'') (JStr ''any'')) of
                            Inl e \<Rightarrow> Inl e
                          | Inr itemType \<Rightarrow> Inr (JStr (itemType @ ''[]''))))
                | None \<Rightarrow>
                    (case truthyVal (getProp responseSchema ''type'') of
                       Some t \<Rightarrow> Inr t
                     | None \<Rightarrow> Inr (JStr ''json'')))))"

text \<open>The body of the loop over the properties of a body parameter's schema.\<close>

definition bodyProperty :: "json \<Rightarrow> string \<times> json \<Rightarrow> rpcParam list \<Rightarrow> jsError + rpcParam list" where
  "bodyProperty schema kv ps =
     (let pn = fst kv; paramSchema = snd kv
      in if paramSchema = JNull then Inl TypeError
         else (case requiredIncludes (getProp schema ''required'') pn of
                 Inl e \<Rightarrow> Inl e
               | Inr req \<Rightarrow>
                   Inr (ps @
                     [\<lparr>paramName = pn,
                       paramType = orDefault (orElse (getProp paramSchema ''type'')
                                                (getProp paramSchema ''format'')) (JStr ''any''),
                       paramFormat = orDefault (getProp paramSchema ''format'') JNull,
                       required = req,
                       paramDescription =
                         orDefault (getProp paramSchema ''description'') (JStr [])\<rparr>])))"

text \<open>The body of the loop over \<open>postMethod.parameters\<close>.\<close>

definition bodyParam :: "json \<Rightarrow> rpcParam list \<Rightarrow> jsError + rpcParam list" where
  "bodyParam param ps =
     (if param = JNull then Inl TypeError
      else if getProp param ''in'' = Some (JStr ''body'')
      then (case getProp param ''schema'' of
              None \<Rightarrow> Inr ps
            | Some schema \<Rightarrow>
                (case truthyVal (optProp (Some schema) ''properties'') of
                   None \<Rightarrow> Inr ps
                 | Some props \<Rightarrow> foldE (bodyProperty schema) (entries props) ps))
      else Inr ps)"

text \<open>The body of the second loop over \<open>Object.entries(spec.paths)\<close>.\<close>

definition parseFunction :: "string \<times> json \<Rightarrow> rpcFunction list \<Rightarrow> jsError + rpcFunction list" where
  "parseFunction pm fs =
     (let path = fst pm; methods = snd pm
      in if \<not> startsWith path ''/rpc/'' then Inr fs
         else if methods = JNull then Inl TypeError
         else (case truthyVal (orElse (getProp methods ''post'') (getProp methods ''get'')) of
                 None \<Rightarrow> Inr fs
               | Some postMethod \<Rightarrow>
                   (case (case truthyVal (getProp postMethod ''parameters'') of
                            None \<Rightarrow> Inr []
                          | Some ps \<Rightarrow>
                              (case iterate ps of
                                 Inl e \<Rightarrow> Inl e
                               | Inr params \<Rightarrow> foldE bodyParam params [])) of
                      Inl e \<Rightarrow> Inl e
                    | Inr params \<Rightarrow>
                        (case resolveReturnType postMethod of
                           Inl e \<Rightarrow> Inl e
                         | Inr rt \<Rightarrow>
                             Inr (fs @
                               [\<lparr>fnName = drop 5 path,
                                 fnDescription =
                                   orDefault (orElse (getProp postMethod ''description'')
                                                (getProp postMethod ''summary'')) (JStr []),
                                 parameters = params,
                                 returnType = rt\<rparr>])))))"

definition parseOpenAPISpec :: "json \<Rightarrow> jsError + catalog" where
  "parseOpenAPISpec spec =
     (let result = \<lparr>tables = [], functions' = [], rawSpec = spec\<rparr>
      in if \<not> truthy spec then Inr result
         else (case truthyVal (getProp spec ''paths'') of
                 None \<Rightarrow> Inr result
               | Some paths \<Rightarrow>
                   (case foldE (parseTable spec) (entries paths) [] of
                      Inl e \<Rightarrow> Inl e
                    | Inr ts \<Rightarrow>
                        (case foldE parseFunction (entries paths) [] of
                           Inl e \<Rightarrow> Inl e
                         | Inr fs \<Rightarrow> Inr (result\<lparr>tables := ts, functions' := fs\<rparr>)))))"

section \<open>Analyzer: sensitive columns\<close>

text \<open>
  The patterns are literal characters, some of them optional (\<open>_?\<close>), searched anywhere
  in the name without regard to case.
\<close>

datatype atom = Ch char | Opt char

fun matchHere :: "atom list \<Rightarrow> string \<Rightarrow> bool" where
  "matchHere [] s = True"
| "matchHere (Ch c # as) [] = False"
| "matchHere (Ch c # as) (x # xs) = (upperChar x = upperChar c \<and> matchHere as xs)"
| "matchHere (Opt c # as) [] = matchHere as []"
| "matchHere (Opt c # as) (x # xs) =
     ((upperChar x = upperChar c \<and> matchHere as xs) \<or> matchHere as (x # xs))"

text \<open>\<open>pattern.test(s)\<close>.\<close>

fun test :: "atom list \<Rightarrow> string \<Rightarrow> bool" where
  "test p [] = matchHere p []"
| "test p (x # xs) = (matchHere p (x # xs) \<or> test p xs)"

definition lit :: "string \<Rightarrow> atom list" where
  "lit s = map Ch s"

fun atomSource :: "atom \<Rightarrow> string" where
  "atomSource (Ch c) = [c]"
| "atomSource (Opt c) = [c, CHR ''?'']"

text \<open>\<open>pattern.toString()\<close>.\<close>

definition patternToString :: "atom list \<Rightarrow> string" where
  "patternToString p = ''/'' @ concat (map atomSource p) @ ''/i''"

definition SENSITIVE_PATTERNS :: "atom list list" where
  "SENSITIVE_PATTERNS =
     [lit ''password'',
      lit ''passwd'',
      lit ''secret'',
      lit ''token'',
      lit ''api'' @ [Opt CHR ''_''] @ lit ''key'',
      lit ''apikey'',
      lit ''private'' @ [Opt CHR ''_''] @ lit ''key'',
      lit ''access'' @ [Opt CHR ''_''] @ lit ''key'',
      lit ''auth'' @ [Opt CHR ''_''] @ lit ''key'',
      lit ''ssn'',
      lit ''social'' @ [Opt CHR ''_''] @ lit ''security'',
      lit ''credit'' @ [Opt CHR ''_''] @ lit ''card'',
      lit ''card'' @ [Opt CHR ''_''] @ lit ''number'',
      lit ''cvv'',
      lit ''cvc'',
      lit ''pin'',
      lit ''encryption'' @ [Opt CHR ''_''] @ lit ''key'',
      lit ''salt'',
      lit ''hash'',
      lit ''credential'']"

record sensitive =
  column :: string
  pattern :: string
  sensType :: json

text \<open>The first pattern that matches the column's name, if any.\<close>

definition sensitiveOf :: "column \<Rightarrow> sensitive list" where
  "sensitiveOf col =
     (case find (\<lambda>p. test p (colName col)) SENSITIVE_PATTERNS of
        None \<Rightarrow> []
      | Some p \<Rightarrow> [\<lparr>column = colName col, pattern = patternToString p, sensType = colType col\<rparr>])"

definition detectSensitiveColumns :: "column list \<Rightarrow> sensitive list" where
  "detectSensitiveColumns cols = concat (map sensitiveOf cols)"

section \<open>Analyzer: risk score\<close>

datatype severity = Critical | High | Medium | Low

text \<open>
  Every issue the analyzer builds carries one of the four severity literals, a type tag,
  the name of the table, function or bucket it is about (when there is one), a message and
  a recommendation; \<open>details\<close> holds the sensitive-column findings (empty when the issue
  has none). The field \<open>func\<close> is the property \<open>function\<close>.
\<close>

record issue =
  severity :: severity
  type :: string
  table :: "string option"
  func :: "string option"
  bucket :: "string option"
  message :: string
  recommendation :: "string option"
  details :: "sensitive list"

record breakdown =
  critical :: nat
  high :: nat
  medium :: nat
  low :: nat

record riskScore =
  score :: nat
  riskLevel :: string
  breakdown :: breakdown
  totalIssues :: nat

fun weights :: "severity \<Rightarrow> nat" where
  "weights Critical = 25"
| "weights High = 15"
| "weights Medium = 8"
| "weights Low = 3"

fun increment :: "severity \<Rightarrow> breakdown \<Rightarrow> breakdown" where
  "increment Critical b = b\<lparr>critical := critical b + 1\<rparr>"
| "increment High b = b\<lparr>high := high b + 1\<rparr>"
| "increment Medium b = b\<lparr>medium := medium b + 1\<rparr>"
| "increment Low b = b\<lparr>low := low b + 1\<rparr>"

text \<open>The loop of \<open>calculateRiskScore\<close> over the issues, on the pair of \<open>totalScore\<close> and \<open>breakdown\<close>.\<close>

fun tally :: "'a issue_scheme list \<Rightarrow> nat \<times> breakdown \<Rightarrow> nat \<times> breakdown" where
  "tally [] acc = acc"
| "tally (i # issues) (totalScore, b) =
     tally issues (totalScore + weights (severity i), increment (severity i) b)"

definition calculateRiskScore :: "'a issue_scheme list \<Rightarrow> riskScore" where
  "calculateRiskScore issues =
     (let (totalScore, b) = tally issues (0, \<lparr>critical = 0, high = 0, medium = 0, low = 0\<rparr>);
          normalizedScore = min 100 totalScore;
          level = (if critical b > 0 \<or> normalizedScore \<ge> 75 then ''critical''
                   else if high b > 0 \<or> normalizedScore \<ge> 50 then ''high''
                   else if medium b > 0 \<or> normalizedScore \<ge> 25 then ''medium''
                   else ''low'')
      in \<lparr>score = normalizedScore, riskLevel = level, breakdown = b,
          totalIssues = length issues\<rparr>)"

section \<open>Analyzer: table and function issues\<close>

definition quoted :: "string \<Rightarrow> string" where
  "quoted s = [CHR 0x22] @ s @ [CHR 0x22]"

text \<open>
  \<open>analyzeTableSecurity\<close>. The access result is \<open>None\<close> when the map has no entry for the
  table (\<open>undefined\<close>): the optional reads then see nothing, and the unguarded
  \<open>accessResults.rowCount\<close> of the last check throws. The error-only object that
  \<open>runAudit\<close> stores when a probe throws reads like an access result with \<open>select\<close> unset,
  unknown permissions and no row count. \<open>toLocaleString\<close> is the number formatting of the
  browser's locale. The five object literals the function pushes come first.
\<close>

definition sensitiveColumnsIssue :: "tableSchema \<Rightarrow> sensitive list \<Rightarrow> issue" where
  "sensitiveColumnsIssue tbl sensitiveColumns =
     \<lparr>severity = Medium, type = ''sensitive_columns'', table = Some (name tbl),
      func = None, bucket = None,
      message = ''Table '' @ quoted (name tbl) @ '' exposes potentially sensitive columns: ''
        @ joinStr '', '' (map column sensitiveColumns),
      recommendation = None, details = sensitiveColumns\<rparr>"

definition insertIssue :: "tableSchema \<Rightarrow> issue" where
  "insertIssue tbl =
     \<lparr>severity = High, type = ''unrestricted_insert'', table = Some (name tbl),
      func = None, bucket = None,
      message = ''Table '' @ quoted (name tbl) @ '' allows INSERT operations with anon key'',
      recommendation = Some ''Consider adding RLS policies to restrict INSERT access'',
      details = []\<rparr>"

definition updateIssue :: "tableSchema \<Rightarrow> issue" where
  "updateIssue tbl =
     \<lparr>severity = High, type = ''unrestricted_update'', table = Some (name tbl),
      func = None, bucket = None,
      message = ''Table '' @ quoted (name tbl) @ '' allows UPDATE operations with anon key'',
      recommendation = Some ''Consider adding RLS policies to restrict UPDATE access'',
      details = []\<rparr>"

definition deleteIssue :: "tableSchema \<Rightarrow> issue" where
  "deleteIssue tbl =
     \<lparr>severity = Critical, type = ''unrestricted_delete'', table = Some (name tbl),
      func = None, bucket = None,
      message = ''Table '' @ quoted (name tbl) @ '' allows DELETE operations with anon key'',
      recommendation = Some ''Strongly consider adding RLS policies to restrict DELETE access'',
      details = []\<rparr>"

definition largeExposureIssue :: "(nat \<Rightarrow> string) \<Rightarrow> tableSchema \<Rightarrow> nat \<Rightarrow> issue" where
  "largeExposureIssue toLocaleString tbl n =
     \<lparr>severity = Low, type = ''large_exposure'', table = Some (name tbl),
      func = None, bucket = None,
      message = ''Table '' @ quoted (name tbl) @ '' exposes '' @ toLocaleString n
        @ '' rows to anon users'',
      recommendation = Some ''Consider if all this data needs to be publicly accessible'',
      details = []\<rparr>"

definition analyzeTableSecurity ::
    "(nat \<Rightarrow> string) \<Rightarrow> tableSchema \<Rightarrow> accessResult option \<Rightarrow> jsError + issue list" where
  "analyzeTableSecurity toLocaleString tbl accessResults =
     (let issues = [];
          sensitiveColumns = detectSensitiveColumns (columns tbl);
          issues = (if length sensitiveColumns > 0
                    then issues @ [sensitiveColumnsIssue tbl sensitiveColumns] else issues);
          issues = (if map_option insertP accessResults = Some TTrue
                    then issues @ [insertIssue tbl] else issues);
          issues = (if map_option updateP accessResults = Some TTrue
                    then issues @ [updateIssue tbl] else issues);
          issues = (if map_option deleteP accessResults = Some TTrue
                    then issues @ [deleteIssue tbl] else issues)
      in case accessResults of
           None \<Rightarrow> Inl TypeError
         | Some a \<Rightarrow>
             (case rowCount a of
                None \<Rightarrow> Inr issues
              | Some n \<Rightarrow>
                  if n > 10000 then Inr (issues @ [largeExposureIssue toLocaleString tbl n])
                  else Inr issues))"

definition sensitiveOps :: "atom list list" where
  "sensitiveOps =
     [lit ''delete'', lit ''drop'', lit ''truncate'', lit ''admin'', lit ''update'',
      lit ''insert'', lit ''create'']"

text \<open>
  \<open>analyzeFunctionSecurity\<close>, on the function's name and the probe's result (\<open>None\<close> when
  the map has no entry for the function).
\<close>

definition sensitiveFunctionIssue :: "rpcFunction \<Rightarrow> issue" where
  "sensitiveFunctionIssue f =
     \<lparr>severity = Medium, type = ''sensitive_function'', table = None,
      func = Some (fnName f), bucket = None,
      message = ''RPC function '' @ quoted (fnName f)
        @ '' appears to perform sensitive operations and is exposed in the API'',
      recommendation = Some ''Verify this function has proper authentication checks'',
      details = []\<rparr>"

definition analyzeFunctionSecurity :: "rpcFunction \<Rightarrow> functionResult option \<Rightarrow> issue list" where
  "analyzeFunctionSecurity f testResults =
     (if map_option accessible testResults = Some True
      then (if list_ex (\<lambda>p. test p (fnName f)) sensitiveOps
            then [sensitiveFunctionIssue f] else [])
      else [])"

section \<open>SupabaseDetector: discovery from a front-end URL\<close>

text \<open>
  The detector keeps what it found in fields of the shared object \<open>SupabaseDetector\<close>;
  a field holding \<open>null\<close> is \<open>None\<close>.
\<close>

record detector =
  detected :: bool
  detectionDetails :: "string list"
  projectUrl :: "string option"
  anonKey :: "string option"

record detection =
  resultProjectUrl :: string
  resultAnonKey :: string
  resultDetails :: "string list"

text \<open>A field that is neither \<open>null\<close> nor the empty string.\<close>

definition found :: "string option \<Rightarrow> bool" where
  "found v = (case v of None \<Rightarrow> False | Some s \<Rightarrow> s \<noteq> [])"

text \<open>The string a field reads as: its own value, and \<open>null\<close> inside a template literal.\<close>

definition strOf :: "string option \<Rightarrow> string" where
  "strOf v = (case v of None \<Rightarrow> ''null'' | Some s \<Rightarrow> s)"

text \<open>
  \<open>detectFromUrl\<close>. The trimmed URL, with \<open>https://\<close> put in front of it when it has no
  scheme, goes to \<open>fetchPageContent\<close> and \<open>analyzeContent\<close>, which run against the network
  and the browser's document parser. \<open>pageFetch\<close> is what \<open>fetchPageContent\<close> comes back
  with (\<open>Inl\<close> the message of the error it throws); \<open>analysis\<close> is the state
  \<open>analyzeContent\<close> leaves in the detector's fields, starting from the reset fields, and
  the message of the error it throws, if it throws. The result is the detector's fields
  after the call and what the call returns (\<open>Inr\<close>) or throws (\<open>Inl\<close> the message).
\<close>

definition detectFromUrl ::
    "string + string \<Rightarrow> detector \<times> string option \<Rightarrow> detector \<times> (string + detection)" where
  "detectFromUrl pageFetch analysis =
     (let this = \<lparr>detected = False, detectionDetails = [], projectUrl = None, anonKey = None\<rparr>
      in case pageFetch of
           Inl e \<Rightarrow> (this, Inl e)
         | Inr pageContent \<Rightarrow>
             if pageContent = []
             then (this, Inl ''Could not fetch page content. CORS may be blocking the request.'')
             else (let this = fst analysis
                   in case snd analysis of
                        Some e \<Rightarrow> (this, Inl e)
                      | None \<Rightarrow>
                          if \<not> detected this
                          then (let detailsMsg =
                                      (if length (detectionDetails this) > 0
                                       then '' Detection details: ''
                                              @ joinStr '', '' (take 3 (detectionDetails this))
                                       else [])
                                in (this, Inl (''No Supabase usage detected on this page.''
                                      @ detailsMsg
                                      @ '' The credentials may be in JavaScript bundles that require authentication to access, or the page may load them dynamically. Please try manual entry.'')))
                          else if \<not> found (projectUrl this) \<or> \<not> found (anonKey this)
                          then (let detectedMsg =
                                      (if length (detectionDetails this) > 0
                                       then '' Detected patterns: ''
                                              @ joinStr '', '' (take 5 (detectionDetails this)) @ ''.''
                                       else []);
                                    partialInfo =
                                      (if found (projectUrl this)
                                       then [''found project URL: '' @ strOf (projectUrl this)]
                                       else [])
                                      @ (if found (anonKey this) then [''found anon key''] else []);
                                    partialMsg =
                                      (if length partialInfo > 0
                                       then '' Partially detected: ''
                                              @ joinStr '' and '' partialInfo @ ''.''
                                       else [])
                                in (this, Inl (''Supabase detected but could not extract both project URL and anon key.''
                                      @ detectedMsg @ partialMsg
                                      @ '' The credentials may be in minified JavaScript bundles or require authentication. Please enter them manually.'')))
                          else (this, Inr \<lparr>resultProjectUrl = strOf (projectUrl this),
                                            resultAnonKey = strOf (anonKey this),
                                            resultDetails = detectionDetails this\<rparr>)))"

section \<open>Notions used to state the properties\<close>

text \<open>The number of issues of one severity in a list.\<close>

definition countSeverity :: "severity \<Rightarrow> 'a issue_scheme list \<Rightarrow> nat" where
  "countSeverity s issues = length (filter (\<lambda>i. severity i = s) issues)"

text \<open>
  The issues of a table with an access result, one optional issue after the other;
  \<open>analyzeTableSecurity_Some\<close> below shows that this is what \<open>analyzeTableSecurity\<close> returns.
\<close>

definition issuesOf :: "(nat \<Rightarrow> string) \<Rightarrow> tableSchema \<Rightarrow> accessResult \<Rightarrow> issue list" where
  "issuesOf loc t a =
     (if detectSensitiveColumns (columns t) \<noteq> []
      then [sensitiveColumnsIssue t (detectSensitiveColumns (columns t))] else [])
     @ (if insertP a = TTrue then [insertIssue t] else [])
     @ (if updateP a = TTrue then [updateIssue t] else [])
     @ (if deleteP a = TTrue then [deleteIssue t] else [])
     @ (case rowCount a of None \<Rightarrow> []
        | Some n \<Rightarrow> if n > 10000 then [largeExposureIssue loc t n] else [])"















text \<open>The type name a \<open>$ref\<close> stands for: what follows its last slash, or \<open>object\<close>.\<close>

definition refTypeName :: "string \<Rightarrow> string" where
  "refTypeName r = (case lastSegment r of Some n \<Rightarrow> n | None \<Rightarrow> ''object'')"

section \<open>Properties of the probes\<close>

text \<open>
  C10. Whatever the list probe did, and for every status \<open>s\<close> the unauthenticated request to
  the bucket's public-object path answers with, \<open>testBucketAccess\<close> reports the bucket as
  public exactly when \<open>s\<close> is neither 400 nor 404; so 401, 403 and 500 are reported as public.
\<close>

theorem testBucketAccess_isPublic:
  "(isPublic (testBucketAccess listFetch (Inr s)) = (s \<noteq> 400 \<and> s \<noteq> 404))
   \<and> isPublic (testBucketAccess listFetch (Inr 401))
   \<and> isPublic (testBucketAccess listFetch (Inr 403))
   \<and> isPublic (testBucketAccess listFetch (Inr 500))"
  by (simp add: testBucketAccess_def Let_def split: sum.splits)

text \<open>
  C1, as the code has it. When the OPTIONS request fails (the signal is not supported),
  \<open>insert\<close>, \<open>update\<close> and \<open>delete\<close> stay unknown and the error note is set. When it is
  answered with a non-empty \<open>Allow\<close> header (or, without one, a non-empty
  \<open>Access-Control-Allow-Methods\<close> header), each of the three becomes a boolean: allowed
  exactly when the upper-cased header contains POST, PATCH or DELETE.
\<close>

theorem testTableAccess_write_permissions:
  "insertP (testTableAccess sel (Inl e)) = TUnknown
   \<and> updateP (testTableAccess sel (Inl e)) = TUnknown
   \<and> deleteP (testTableAccess sel (Inl e)) = TUnknown
   \<and> error (testTableAccess sel (Inl e))
        = Some ''Could not determine write permissions (OPTIONS not supported)''
   \<and> (firstHeader (allow r) (accessControlAllowMethods r) = h \<and> h \<noteq> [] \<longrightarrow>
        insertP (testTableAccess sel (Inr r)) = ofBool (includesStr (toUpperCase h) ''POST'')
      \<and> updateP (testTableAccess sel (Inr r)) = ofBool (includesStr (toUpperCase h) ''PATCH'')
      \<and> deleteP (testTableAccess sel (Inr r)) = ofBool (includesStr (toUpperCase h) ''DELETE''))"
  by (simp add: testTableAccess_def Let_def split: sum.splits option.splits)

theorem testTableAccess_write_permissions_witness:
  "firstHeader (allow \<lparr>allow = Some ''get, post'', accessControlAllowMethods = None\<rparr>)
       (accessControlAllowMethods \<lparr>allow = Some ''get, post'', accessControlAllowMethods = None\<rparr>)
     = ''get, post''
   \<and> ''get, post'' \<noteq> []
   \<and> insertP (testTableAccess (Inl ''x'')
        (Inr \<lparr>allow = Some ''get, post'', accessControlAllowMethods = None\<rparr>)) = TTrue
   \<and> updateP (testTableAccess (Inl ''x'')
        (Inr \<lparr>allow = Some ''get, post'', accessControlAllowMethods = None\<rparr>)) = TFalse
   \<and> deleteP (testTableAccess (Inl ''x'')
        (Inr \<lparr>allow = Some ''get, post'', accessControlAllowMethods = None\<rparr>)) = TFalse"
  using testTableAccess_write_permissions [of "Inl ''x''" "''e''"
      "\<lparr>allow = Some ''get, post'', accessControlAllowMethods = None\<rparr>" "''get, post''"]
  by (simp add: firstHeader_def toUpperCase_def upperChar_def ofBool_def Let_def)

text \<open>
  C1 as stated fails: an OPTIONS answer that advertises no write verb (\<open>Allow: GET\<close>)
  sets all three permissions to denied.
\<close>

theorem testTableAccess_no_write_verb_denied:
  "insertP (testTableAccess (Inr \<lparr>status = 200, contentRange = None\<rparr>)
              (Inr \<lparr>allow = Some ''GET'', accessControlAllowMethods = None\<rparr>)) = TFalse
   \<and> updateP (testTableAccess (Inr \<lparr>status = 200, contentRange = None\<rparr>)
              (Inr \<lparr>allow = Some ''GET'', accessControlAllowMethods = None\<rparr>)) = TFalse
   \<and> deleteP (testTableAccess (Inr \<lparr>status = 200, contentRange = None\<rparr>)
              (Inr \<lparr>allow = Some ''GET'', accessControlAllowMethods = None\<rparr>)) = TFalse"
  by (simp add: testTableAccess_def firstHeader_def toUpperCase_def upperChar_def ofBool_def Let_def)

text \<open>
  The row count and \<open>select\<close>. The row-count probe of \<open>runAudit\<close> is skipped for a table whose
  select was denied, and a select request that failed, or was answered with a success
  status or 416, leaves a row count only together with \<open>select\<close>.
\<close>

lemma runAudit_rowCount_skipped:
  "\<not> select access \<Longrightarrow> runAudit_rowCount access headFetch fallbackFetch = access"
  by (simp add: runAudit_rowCount_def)

lemma rowCount_only_if_select_on_success:
  assumes "selectFetch = Inl e \<or> selectFetch = Inr r \<and> (ok (status r) \<or> status r = 416)"
    and "rowCount (runAudit_rowCount (testTableAccess selectFetch optionsFetch)
            headFetch fallbackFetch) \<noteq> None"
  shows "select (runAudit_rowCount (testTableAccess selectFetch optionsFetch)
            headFetch fallbackFetch)"
  using assms
  by (auto simp add: runAudit_rowCount_def testTableAccess_def Let_def
      split: sum.splits option.splits if_splits)

text \<open>
  C4 at the failing input: a select request answered with status 403 and the header
  \<open>Content-Range: 0-0/7\<close>. \<open>testTableAccess\<close> reads the header whatever the status is, so
  the access result has \<open>select\<close> unset and a row count of 7, and \<open>runAudit\<close> leaves it so.
\<close>

theorem testTableAccess_rowCount_without_select:
  "select (runAudit_rowCount
            (testTableAccess (Inr \<lparr>status = 403, contentRange = Some ''0-0/7''\<rparr>) optionsFetch)
            headFetch fallbackFetch) = False
   \<and> rowCount (runAudit_rowCount
            (testTableAccess (Inr \<lparr>status = 403, contentRange = Some ''0-0/7''\<rparr>) optionsFetch)
            headFetch fallbackFetch) = Some 7"
  by (simp add: runAudit_rowCount_def testTableAccess_def ok_def isDigit_def parseInt_def Let_def
      split: sum.splits)

section \<open>Properties of the risk score\<close>

lemma tally_total:
  "fst (tally issues (t, b)) =
     t + 25 * countSeverity Critical issues + 15 * countSeverity High issues
       + 8 * countSeverity Medium issues + 3 * countSeverity Low issues"
proof (induction issues arbitrary: t b)
  case Nil
  show ?case by (simp add: countSeverity_def)
next
  case (Cons i issues)
  show ?case
    by (cases "severity i") (simp_all add: Cons.IH countSeverity_def)
qed

lemma tally_breakdown:
  "critical (snd (tally issues (t, b))) = critical b + countSeverity Critical issues
   \<and> high (snd (tally issues (t, b))) = high b + countSeverity High issues
   \<and> medium (snd (tally issues (t, b))) = medium b + countSeverity Medium issues
   \<and> low (snd (tally issues (t, b))) = low b + countSeverity Low issues"
proof (induction issues arbitrary: t b)
  case Nil
  show ?case by (simp add: countSeverity_def)
next
  case (Cons i issues)
  show ?case
    by (cases "severity i") (simp_all add: Cons.IH countSeverity_def)
qed

lemma score_eq:
  "score (calculateRiskScore issues) =
     min 100 (25 * countSeverity Critical issues + 15 * countSeverity High issues
              + 8 * countSeverity Medium issues + 3 * countSeverity Low issues)"
  using tally_total [of issues 0 "\<lparr>critical = 0, high = 0, medium = 0, low = 0\<rparr>"]
  by (simp add: calculateRiskScore_def Let_def case_prod_beta)

lemma breakdown_eq:
  "breakdown (calculateRiskScore issues) =
     \<lparr>critical = countSeverity Critical issues, high = countSeverity High issues,
      medium = countSeverity Medium issues, low = countSeverity Low issues\<rparr>"
  using tally_breakdown [of issues 0 "\<lparr>critical = 0, high = 0, medium = 0, low = 0\<rparr>"]
  by (intro breakdown.equality) (simp_all add: calculateRiskScore_def Let_def case_prod_beta)

lemma riskLevel_eq:
  "riskLevel (calculateRiskScore issues) =
     (if critical (breakdown (calculateRiskScore issues)) > 0
         \<or> score (calculateRiskScore issues) \<ge> 75 then ''critical''
      else if high (breakdown (calculateRiskScore issues)) > 0
         \<or> score (calculateRiskScore issues) \<ge> 50 then ''high''
      else if medium (breakdown (calculateRiskScore issues)) > 0
         \<or> score (calculateRiskScore issues) \<ge> 25 then ''medium''
      else ''low'')"
  by (simp add: calculateRiskScore_def Let_def case_prod_beta)

text \<open>
  C2. An issue list with at least one critical issue gets the level \<open>critical\<close> whatever its
  score; the breakdown counts the issues of each severity, and the level is decided in the
  order: a critical issue or a score of at least 75 gives \<open>critical\<close>, else a high issue or
  a score of at least 50 gives \<open>high\<close>, else a medium issue or a score of at least 25 gives
  \<open>medium\<close>, else \<open>low\<close>.
\<close>

theorem riskLevel_precedence:
  fixes issues :: "'a issue_scheme list"
  defines "r \<equiv> calculateRiskScore issues"
  shows "(critical (breakdown r) > 0 \<longrightarrow> riskLevel r = ''critical'')
    \<and> critical (breakdown r) = countSeverity Critical issues
    \<and> high (breakdown r) = countSeverity High issues
    \<and> medium (breakdown r) = countSeverity Medium issues
    \<and> low (breakdown r) = countSeverity Low issues
    \<and> riskLevel r =
        (if critical (breakdown r) > 0 \<or> score r \<ge> 75 then ''critical''
         else if high (breakdown r) > 0 \<or> score r \<ge> 50 then ''high''
         else if medium (breakdown r) > 0 \<or> score r \<ge> 25 then ''medium''
         else ''low'')"
  unfolding r_def
  using riskLevel_eq [of issues] by (simp add: breakdown_eq)

text \<open>
  C3. The score is the weighted sum of the severity counts (25, 15, 8 and 3), cut off at 100;
  it never exceeds 100, and a list with at least as many issues of each severity as another
  scores at least as much.
\<close>

theorem score_weighted_capped_monotone:
  fixes xs ys :: "'a issue_scheme list"
  shows "score (calculateRiskScore xs) =
           min 100 (25 * countSeverity Critical xs + 15 * countSeverity High xs
                    + 8 * countSeverity Medium xs + 3 * countSeverity Low xs)
    \<and> score (calculateRiskScore xs) \<le> 100
    \<and> ((\<forall>s. countSeverity s xs \<le> countSeverity s ys)
         \<longrightarrow> score (calculateRiskScore xs) \<le> score (calculateRiskScore ys))"
proof -
  have mono: "score (calculateRiskScore xs) \<le> score (calculateRiskScore ys)"
    if le: "\<forall>s. countSeverity s xs \<le> countSeverity s ys"
  proof -
    have "countSeverity Critical xs \<le> countSeverity Critical ys"
      "countSeverity High xs \<le> countSeverity High ys"
      "countSeverity Medium xs \<le> countSeverity Medium ys"
      "countSeverity Low xs \<le> countSeverity Low ys"
      using le by blast+
    then show ?thesis by (simp add: score_eq)
  qed
  show ?thesis using mono by (simp add: score_eq)
qed

theorem riskLevel_precedence_witness:
  "0 < critical (breakdown (calculateRiskScore
         [\<lparr>severity = Critical, type = ''unrestricted_delete'', table = Some ''users'',
           func = None, bucket = None, message = ''m'', recommendation = None, details = []\<rparr>]))
   \<and> riskLevel (calculateRiskScore
         [\<lparr>severity = Critical, type = ''unrestricted_delete'', table = Some ''users'',
           func = None, bucket = None, message = ''m'', recommendation = None, details = []\<rparr>]) = ''critical''
   \<and> score (calculateRiskScore
         [\<lparr>severity = Critical, type = ''unrestricted_delete'', table = Some ''users'',
           func = None, bucket = None, message = ''m'', recommendation = None, details = []\<rparr>]) = 25"
  using riskLevel_precedence [of
      "[\<lparr>severity = Critical, type = ''unrestricted_delete'', table = Some ''users'',
         func = None, bucket = None, message = ''m'', recommendation = None, details = []\<rparr>]"]
  by (simp add: countSeverity_def score_eq)

theorem score_weighted_capped_monotone_witness:
  "(\<forall>s. countSeverity s
          [\<lparr>severity = Low, type = ''many_tables'', table = None, func = None,
            bucket = None, message = ''m'', recommendation = None, details = []\<rparr>]
        \<le> countSeverity s
          [\<lparr>severity = Low, type = ''many_tables'', table = None, func = None,
            bucket = None, message = ''m'', recommendation = None, details = []\<rparr>,
           \<lparr>severity = High, type = ''unrestricted_insert'', table = Some ''users'',
            func = None, bucket = None, message = ''m'', recommendation = None, details = []\<rparr>])
   \<and> score (calculateRiskScore
          [\<lparr>severity = Low, type = ''many_tables'', table = None, func = None,
            bucket = None, message = ''m'', recommendation = None, details = []\<rparr>]) = 3
   \<and> score (calculateRiskScore
          [\<lparr>severity = Low, type = ''many_tables'', table = None, func = None,
            bucket = None, message = ''m'', recommendation = None, details = []\<rparr>,
           \<lparr>severity = High, type = ''unrestricted_insert'', table = Some ''users'',
            func = None, bucket = None, message = ''m'', recommendation = None, details = []\<rparr>]) = 18
   \<and> score (calculateRiskScore
          [\<lparr>severity = Low, type = ''many_tables'', table = None, func = None,
            bucket = None, message = ''m'', recommendation = None, details = []\<rparr>])
       \<le> score (calculateRiskScore
          [\<lparr>severity = Low, type = ''many_tables'', table = None, func = None,
            bucket = None, message = ''m'', recommendation = None, details = []\<rparr>,
           \<lparr>severity = High, type = ''unrestricted_insert'', table = Some ''users'',
            func = None, bucket = None, message = ''m'', recommendation = None, details = []\<rparr>])"
proof -
  let ?xs = "[\<lparr>severity = Low, type = ''many_tables'', table = None, func = None,
            bucket = None, message = ''m'', recommendation = None, details = []\<rparr>]"
  let ?ys = "[\<lparr>severity = Low, type = ''many_tables'', table = None, func = None,
            bucket = None, message = ''m'', recommendation = None, details = []\<rparr>,
           \<lparr>severity = High, type = ''unrestricted_insert'', table = Some ''users'',
            func = None, bucket = None, message = ''m'', recommendation = None, details = []\<rparr>]"
  have le: "\<forall>s. countSeverity s ?xs \<le> countSeverity s ?ys"
    by (simp add: countSeverity_def)
  have "score (calculateRiskScore ?xs) = 3" "score (calculateRiskScore ?ys) = 18"
    using score_weighted_capped_monotone [of ?xs ?xs] score_weighted_capped_monotone [of ?ys ?ys]
    by (simp_all add: countSeverity_def)
  moreover have "score (calculateRiskScore ?xs) \<le> score (calculateRiskScore ?ys)"
    using score_weighted_capped_monotone [of ?xs ?ys] le by blast
  ultimately show ?thesis using le by blast
qed

section \<open>Properties of the table and function issues\<close>

lemma issue_fields:
  "type (sensitiveColumnsIssue t sc) = ''sensitive_columns''"
  "type (insertIssue t) = ''unrestricted_insert''"
  "type (updateIssue t) = ''unrestricted_update''"
  "type (deleteIssue t) = ''unrestricted_delete''"
  "type (largeExposureIssue loc t n) = ''large_exposure''"
  "severity (sensitiveColumnsIssue t sc) = Medium"
  "severity (insertIssue t) = High"
  "severity (updateIssue t) = High"
  "severity (deleteIssue t) = Critical"
  "severity (largeExposureIssue loc t n) = Low"
  "table (sensitiveColumnsIssue t sc) = Some (name t)"
  "table (insertIssue t) = Some (name t)"
  "table (updateIssue t) = Some (name t)"
  "table (deleteIssue t) = Some (name t)"
  "table (largeExposureIssue loc t n) = Some (name t)"
  by (simp_all add: sensitiveColumnsIssue_def insertIssue_def updateIssue_def deleteIssue_def
        largeExposureIssue_def)

lemma analyzeTableSecurity_Some:
  "analyzeTableSecurity loc t (Some a) = Inr (issuesOf loc t a)"
  by (simp add: analyzeTableSecurity_def issuesOf_def Let_def split: option.splits)

lemma analyzeTableSecurity_None:
  "analyzeTableSecurity loc t None = Inl TypeError"
  by (simp add: analyzeTableSecurity_def Let_def)

text \<open>
  C6. For a table with an access result, \<open>analyzeTableSecurity\<close> returns a list with one
  \<open>unrestricted_insert\<close> issue when insert is allowed and none otherwise, and likewise
  for update and delete; the insert and update issues are of severity high, the delete
  issue of severity critical, each about that table. With insert allowed, update and
  delete denied, no sensitive column and no row count above 10000, the list is that one
  high \<open>unrestricted_insert\<close> issue.
\<close>

theorem analyzeTableSecurity_write_issues:
  "\<exists>issues. analyzeTableSecurity loc t (Some a) = Inr issues
     \<and> length (filter (\<lambda>i. type i = ''unrestricted_insert'') issues)
          = (if insertP a = TTrue then 1 else 0)
     \<and> length (filter (\<lambda>i. type i = ''unrestricted_update'') issues)
          = (if updateP a = TTrue then 1 else 0)
     \<and> length (filter (\<lambda>i. type i = ''unrestricted_delete'') issues)
          = (if deleteP a = TTrue then 1 else 0)
     \<and> (\<forall>i \<in> set issues.
           (type i = ''unrestricted_insert'' \<longrightarrow> severity i = High \<and> table i = Some (name t))
         \<and> (type i = ''unrestricted_update'' \<longrightarrow> severity i = High \<and> table i = Some (name t))
         \<and> (type i = ''unrestricted_delete'' \<longrightarrow> severity i = Critical \<and> table i = Some (name t)))
     \<and> (insertP a = TTrue \<and> updateP a = TFalse \<and> deleteP a = TFalse
          \<and> detectSensitiveColumns (columns t) = []
          \<and> (\<forall>n. rowCount a = Some n \<longrightarrow> n \<le> 10000)
          \<longrightarrow> map type issues = [''unrestricted_insert''] \<and> map severity issues = [High])"
proof -
  let ?is = "issuesOf loc t a"
  have 1: "length (filter (\<lambda>i. type i = ''unrestricted_insert'') ?is)
             = (if insertP a = TTrue then 1 else 0)"
    by (simp add: issuesOf_def issue_fields split: option.splits)
  have 2: "length (filter (\<lambda>i. type i = ''unrestricted_update'') ?is)
             = (if updateP a = TTrue then 1 else 0)"
    by (simp add: issuesOf_def issue_fields split: option.splits)
  have 3: "length (filter (\<lambda>i. type i = ''unrestricted_delete'') ?is)
             = (if deleteP a = TTrue then 1 else 0)"
    by (simp add: issuesOf_def issue_fields split: option.splits)
  have 4: "\<forall>i \<in> set ?is.
           (type i = ''unrestricted_insert'' \<longrightarrow> severity i = High \<and> table i = Some (name t))
         \<and> (type i = ''unrestricted_update'' \<longrightarrow> severity i = High \<and> table i = Some (name t))
         \<and> (type i = ''unrestricted_delete'' \<longrightarrow> severity i = Critical \<and> table i = Some (name t))"
    by (auto simp add: issuesOf_def issue_fields split: option.splits if_splits)
  have 5: "insertP a = TTrue \<and> updateP a = TFalse \<and> deleteP a = TFalse
          \<and> detectSensitiveColumns (columns t) = []
          \<and> (\<forall>n. rowCount a = Some n \<longrightarrow> n \<le> 10000)
          \<longrightarrow> map type ?is = [''unrestricted_insert''] \<and> map severity ?is = [High]"
    by (auto simp add: issuesOf_def issue_fields split: option.splits)
  show ?thesis by (intro exI [of _ ?is] conjI analyzeTableSecurity_Some 1 2 3 4 5)
qed

theorem analyzeTableSecurity_write_issues_witness:
  "insertP \<lparr>select = True, insertP = TTrue, updateP = TFalse, deleteP = TFalse,
            rowCount = Some 50, error = None\<rparr> = TTrue
   \<and> detectSensitiveColumns
        (columns \<lparr>name = ''users'', columns = [], operations = [], description = []\<rparr>) = []
   \<and> map type (projr (analyzeTableSecurity stringOfNat
        \<lparr>name = ''users'', columns = [], operations = [], description = []\<rparr>
        (Some \<lparr>select = True, insertP = TTrue, updateP = TFalse, deleteP = TFalse,
               rowCount = Some 50, error = None\<rparr>)))
      = [''unrestricted_insert'']
   \<and> map severity (projr (analyzeTableSecurity stringOfNat
        \<lparr>name = ''users'', columns = [], operations = [], description = []\<rparr>
        (Some \<lparr>select = True, insertP = TTrue, updateP = TFalse, deleteP = TFalse,
               rowCount = Some 50, error = None\<rparr>)))
      = [High]"
  using analyzeTableSecurity_write_issues [of stringOfNat
        "\<lparr>name = ''users'', columns = [], operations = [], description = []\<rparr>"
        "\<lparr>select = True, insertP = TTrue, updateP = TFalse, deleteP = TFalse,
          rowCount = Some 50, error = None\<rparr>"]
  by (auto simp add: detectSensitiveColumns_def)

text \<open>
  C8, as the code has it. \<open>analyzeFunctionSecurity\<close> returns one \<open>sensitive_function\<close> issue
  of severity medium exactly when the function's name matches one of the verb patterns
  and the probe's result has \<open>accessible\<close> set, and no issue otherwise. The probe sets
  \<open>accessible\<close> for every status but 404 and when the request fails; it reports that
  authentication is required exactly for the statuses 401 and 403, which
  \<open>analyzeFunctionSecurity\<close> does not look at.
\<close>

theorem analyzeFunctionSecurity_sensitive_function:
  "map type (analyzeFunctionSecurity f r) =
     (if map_option accessible r = Some True \<and> list_ex (\<lambda>p. test p (fnName f)) sensitiveOps
      then [''sensitive_function''] else [])
   \<and> map severity (analyzeFunctionSecurity f r) =
     (if map_option accessible r = Some True \<and> list_ex (\<lambda>p. test p (fnName f)) sensitiveOps
      then [Medium] else [])
   \<and> accessible (testRPCFunction (Inr s)) = (s \<noteq> 404)
   \<and> accessible (testRPCFunction (Inl e)) = True
   \<and> (requiresAuth (testRPCFunction (Inr s)) = TTrue) = (s = 401 \<or> s = 403)"
  by (simp add: analyzeFunctionSecurity_def sensitiveFunctionIssue_def testRPCFunction_def Let_def)

theorem analyzeFunctionSecurity_sensitive_function_witness:
  "map type (analyzeFunctionSecurity
       \<lparr>fnName = ''delete_user'', fnDescription = JStr [], parameters = [],
        returnType = JStr ''void''\<rparr>
       (Some (testRPCFunction (Inr 200)))) = [''sensitive_function'']
   \<and> map severity (analyzeFunctionSecurity
       \<lparr>fnName = ''delete_user'', fnDescription = JStr [], parameters = [],
        returnType = JStr ''void''\<rparr>
       (Some (testRPCFunction (Inr 200)))) = [Medium]"
proof -
  have m: "list_ex (\<lambda>p. test p ''delete_user'') sensitiveOps"
    by code_simp
  show ?thesis
    using m analyzeFunctionSecurity_sensitive_function [of
        "\<lparr>fnName = ''delete_user'', fnDescription = JStr [], parameters = [],
          returnType = JStr ''void''\<rparr>"
        "Some (testRPCFunction (Inr 200))" 200 "''e''"]
    by simp
qed

text \<open>
  C8 as stated fails: the function \<open>delete_user\<close> whose probe was answered with 401
  (authentication required) gets the \<open>sensitive_function\<close> issue.
\<close>

theorem analyzeFunctionSecurity_auth_required_flagged:
  "map type (analyzeFunctionSecurity
       \<lparr>fnName = ''delete_user'', fnDescription = JStr [], parameters = [],
        returnType = JStr ''void''\<rparr>
       (Some (testRPCFunction (Inr 401)))) = [''sensitive_function'']
   \<and> requiresAuth (testRPCFunction (Inr 401)) = TTrue"
  by code_simp

section \<open>Properties of discovery\<close>

lemma startsWith_append: "startsWith (t @ r) t"
  by (induction t) simp_all

lemma includesStr_append: "includesStr (p @ t @ r) t"
proof (induction p)
  case Nil
  show ?case by (cases "t @ r") (use startsWith_append [of t r] in \<open>auto\<close>)
next
  case (Cons c p)
  then show ?case by simp
qed

text \<open>
  C5, as the code has it. When the page was fetched and the analysis leaves exactly one
  of project URL and anon key, \<open>detectFromUrl\<close> throws; the detector's fields keep what was
  found, and when Supabase was detected the message of the error names the part that
  was found. \<open>detectFromUrl\<close> returns a result only when both fields were found, and the
  result carries both.
\<close>

theorem detectFromUrl_partial_raises:
  "(content \<noteq> [] \<and> found (projectUrl st) \<noteq> found (anonKey st) \<longrightarrow>
      (\<exists>msg. detectFromUrl (Inr content) (st, None) = (st, Inl msg)
          \<and> (detected st \<longrightarrow> includesStr msg '' Partially detected: found '')))
   \<and> (snd (detectFromUrl pageFetch analysis) = Inr d \<longrightarrow>
        found (projectUrl (fst analysis)) \<and> found (anonKey (fst analysis))
        \<and> projectUrl (fst analysis) = Some (resultProjectUrl d)
        \<and> anonKey (fst analysis) = Some (resultAnonKey d))"
proof (intro conjI impI)
  assume h: "content \<noteq> [] \<and> found (projectUrl st) \<noteq> found (anonKey st)"
  show "\<exists>msg. detectFromUrl (Inr content) (st, None) = (st, Inl msg)
          \<and> (detected st \<longrightarrow> includesStr msg '' Partially detected: found '')"
  proof (cases "detected st")
    case False
    with h show ?thesis by (simp add: detectFromUrl_def Let_def)
  next
    case True
    define pre where "pre =
       ''Supabase detected but could not extract both project URL and anon key.''
       @ (if length (detectionDetails st) > 0
          then '' Detected patterns: '' @ joinStr '', '' (take 5 (detectionDetails st)) @ ''.''
          else [])"
    have "\<exists>post. snd (detectFromUrl (Inr content) (st, None))
             = Inl (pre @ '' Partially detected: found '' @ post)
          \<and> fst (detectFromUrl (Inr content) (st, None)) = st"
      using h True by (auto simp add: detectFromUrl_def Let_def pre_def)
    then obtain post where p: "detectFromUrl (Inr content) (st, None)
         = (st, Inl (pre @ '' Partially detected: found '' @ post))"
      by (metis prod.collapse)
    show ?thesis
      using p includesStr_append [of pre "'' Partially detected: found ''" post] by blast
  qed
next
  assume "snd (detectFromUrl pageFetch analysis) = Inr d"
  then show "found (projectUrl (fst analysis))" "found (anonKey (fst analysis))"
     "projectUrl (fst analysis) = Some (resultProjectUrl d)"
     "anonKey (fst analysis) = Some (resultAnonKey d)"
    by (auto simp add: detectFromUrl_def Let_def found_def strOf_def
        split: sum.splits option.splits if_splits)
qed

theorem detectFromUrl_partial_raises_witness:
  "''anonKey:'' @ quoted ''eyJhbGciOiJIUzI1NiJ9.eyJyb2xlIjoiYW5vbiJ9.c2ln'' \<noteq> []
   \<and> found (projectUrl
         \<lparr>detected = True,
          detectionDetails = [''Found Supabase anon key in environment variable''],
          projectUrl = None,
          anonKey = Some ''eyJhbGciOiJIUzI1NiJ9.eyJyb2xlIjoiYW5vbiJ9.c2ln''\<rparr>)
       \<noteq> found (anonKey
         \<lparr>detected = True,
          detectionDetails = [''Found Supabase anon key in environment variable''],
          projectUrl = None,
          anonKey = Some ''eyJhbGciOiJIUzI1NiJ9.eyJyb2xlIjoiYW5vbiJ9.c2ln''\<rparr>)
   \<and> isl (snd (detectFromUrl
        (Inr (''anonKey:'' @ quoted ''eyJhbGciOiJIUzI1NiJ9.eyJyb2xlIjoiYW5vbiJ9.c2ln''))
        (\<lparr>detected = True,
          detectionDetails = [''Found Supabase anon key in environment variable''],
          projectUrl = None,
          anonKey = Some ''eyJhbGciOiJIUzI1NiJ9.eyJyb2xlIjoiYW5vbiJ9.c2ln''\<rparr>,
         None)))
   \<and> anonKey (fst (detectFromUrl
        (Inr (''anonKey:'' @ quoted ''eyJhbGciOiJIUzI1NiJ9.eyJyb2xlIjoiYW5vbiJ9.c2ln''))
        (\<lparr>detected = True,
          detectionDetails = [''Found Supabase anon key in environment variable''],
          projectUrl = None,
          anonKey = Some ''eyJhbGciOiJIUzI1NiJ9.eyJyb2xlIjoiYW5vbiJ9.c2ln''\<rparr>,
         None))) = Some ''eyJhbGciOiJIUzI1NiJ9.eyJyb2xlIjoiYW5vbiJ9.c2ln''
   \<and> snd (detectFromUrl (Inr ''SUPABASE_URL=https://abc.supabase.co'')
        (\<lparr>detected = True, detectionDetails = [], projectUrl = Some ''https://abc.supabase.co'',
          anonKey = Some ''eyJhbGciOiJIUzI1NiJ9.eyJyb2xlIjoiYW5vbiJ9.c2ln''\<rparr>, None))
       = Inr \<lparr>resultProjectUrl = ''https://abc.supabase.co'',
              resultAnonKey = ''eyJhbGciOiJIUzI1NiJ9.eyJyb2xlIjoiYW5vbiJ9.c2ln'',
              resultDetails = []\<rparr>
   \<and> found (projectUrl
        \<lparr>detected = True, detectionDetails = [], projectUrl = Some ''https://abc.supabase.co'',
          anonKey = Some ''eyJhbGciOiJIUzI1NiJ9.eyJyb2xlIjoiYW5vbiJ9.c2ln''\<rparr>)
   \<and> found (anonKey
        \<lparr>detected = True, detectionDetails = [], projectUrl = Some ''https://abc.supabase.co'',
          anonKey = Some ''eyJhbGciOiJIUzI1NiJ9.eyJyb2xlIjoiYW5vbiJ9.c2ln''\<rparr>)"
proof -
  let ?page = "''anonKey:'' @ quoted ''eyJhbGciOiJIUzI1NiJ9.eyJyb2xlIjoiYW5vbiJ9.c2ln''"
  let ?st = "\<lparr>detected = True,
        detectionDetails = [''Found Supabase anon key in environment variable''],
        projectUrl = None, anonKey = Some ''eyJhbGciOiJIUzI1NiJ9.eyJyb2xlIjoiYW5vbiJ9.c2ln''\<rparr>"
  let ?both = "\<lparr>detected = True, detectionDetails = [],
        projectUrl = Some ''https://abc.supabase.co'',
        anonKey = Some ''eyJhbGciOiJIUzI1NiJ9.eyJyb2xlIjoiYW5vbiJ9.c2ln''\<rparr>"
  let ?d = "\<lparr>resultProjectUrl = ''https://abc.supabase.co'',
        resultAnonKey = ''eyJhbGciOiJIUzI1NiJ9.eyJyb2xlIjoiYW5vbiJ9.c2ln'',
        resultDetails = []\<rparr>"
  have h: "?page \<noteq> [] \<and> found (projectUrl ?st) \<noteq> found (anonKey ?st)"
    by (simp add: found_def)
  have "\<exists>msg. detectFromUrl (Inr ?page) (?st, None) = (?st, Inl msg)"
    using detectFromUrl_partial_raises [of ?page ?st] h by blast
  then obtain msg where "detectFromUrl (Inr ?page) (?st, None) = (?st, Inl msg)" ..
  then have 1: "isl (snd (detectFromUrl (Inr ?page) (?st, None)))"
    and 2: "anonKey (fst (detectFromUrl (Inr ?page) (?st, None)))
              = Some ''eyJhbGciOiJIUzI1NiJ9.eyJyb2xlIjoiYW5vbiJ9.c2ln''"
    by simp_all
  have r: "snd (detectFromUrl (Inr ''SUPABASE_URL=https://abc.supabase.co'') (?both, None)) = Inr ?d"
    by (simp add: detectFromUrl_def found_def strOf_def Let_def)
  have 3: "found (projectUrl ?both)" and 4: "found (anonKey ?both)"
    using detectFromUrl_partial_raises
      [of _ _ "Inr ''SUPABASE_URL=https://abc.supabase.co''" "(?both, None)" ?d] r
    by simp_all
  show ?thesis using h 1 2 r 3 4 by (intro conjI) simp_all
qed

text \<open>
  C5 as stated fails: on a page where only the project URL is found, \<open>detectFromUrl\<close>
  throws an error instead of returning a partial result.
\<close>

theorem detectFromUrl_partial_not_returned:
  "detectFromUrl (Inr ''Our API lives at https://abc.supabase.co'')
     (\<lparr>detected = True,
       detectionDetails = [''Text content: supabase'' @ [CHR 0x5C] @ ''.co'',
                           ''Found Supabase URL: https://abc.supabase.co''],
       projectUrl = Some ''https://abc.supabase.co'', anonKey = None\<rparr>, None)
   = (\<lparr>detected = True,
       detectionDetails = [''Text content: supabase'' @ [CHR 0x5C] @ ''.co'',
                           ''Found Supabase URL: https://abc.supabase.co''],
       projectUrl = Some ''https://abc.supabase.co'', anonKey = None\<rparr>,
      Inl (''Supabase detected but could not extract both project URL and anon key. Detected patterns: Text content: supabase''
           @ [CHR 0x5C]
           @ ''.co, Found Supabase URL: https://abc.supabase.co. Partially detected: found project URL: https://abc.supabase.co. The credentials may be in minified JavaScript bundles or require authentication. Please enter them manually.''))"
  by (simp add: detectFromUrl_def found_def strOf_def Let_def)

section \<open>Properties of the parser\<close>



















text \<open>
  An item type that is an object with a member \<open>toString\<close> cannot be turned into a string:
  the template literal throws, and so does the parser.
\<close>

lemma parseOpenAPISpec_item_type_toString_throws:
  "parseOpenAPISpec (JObj [(''paths'', JObj [(''/rpc/f'', JObj [(''post'',
       JObj [(''responses'', JObj [(''200'', JObj [(''schema'',
         JObj [(''type'', JStr ''array''),
               (''items'', JObj [(''type'', JObj [(''toString'', JNum False ''1'')])])])])])])])])])
     = Inl TypeError"
  by code_simp

lemma parseOpenAPISpec_array_of_numbers:
  "parseOpenAPISpec (JObj [(''paths'', JObj [(''/rpc/f'', JObj [(''post'',
       JObj [(''responses'', JObj [(''200'', JObj [(''schema'',
         JObj [(''type'', JStr ''array''),
               (''items'', JObj [(''type'', JStr ''integer'')])])])])])])])])
     = Inr \<lparr>tables = [],
            functions' = [\<lparr>fnName = ''f'', fnDescription = JStr [], parameters = [],
                           returnType = JStr ''integer[]''\<rparr>],
            rawSpec = JObj [(''paths'', JObj [(''/rpc/f'', JObj [(''post'',
              JObj [(''responses'', JObj [(''200'', JObj [(''schema'',
                JObj [(''type'', JStr ''array''),
                      (''items'', JObj [(''type'', JStr ''integer'')])])])])])])])]\<rparr>"
  by code_simp

lemma parseFunction_keeps:
  "parseFunction pm fs = Inr fs' \<Longrightarrow> set fs \<subseteq> set fs'"
  by (auto simp add: parseFunction_def Let_def split: if_splits option.splits sum.splits)

lemma foldE_parseFunction_keeps:
  "foldE parseFunction es fs = Inr fs' \<Longrightarrow> set fs \<subseteq> set fs'"
proof (induction es arbitrary: fs)
  case Nil
  then show ?case by simp
next
  case (Cons e es)
  then obtain fs1 where 1: "parseFunction e fs = Inr fs1" and 2: "foldE parseFunction es fs1 = Inr fs'"
    by (auto split: sum.splits)
  from parseFunction_keeps [OF 1] Cons.IH [OF 2] show ?case by blast
qed

lemma parseFunction_adds:
  assumes "parseFunction (path, methods) fs = Inr fs'"
    and "startsWith path ''/rpc/''"
    and "truthyVal (orElse (getProp methods ''post'') (getProp methods ''get'')) = Some postMethod"
  shows "\<exists>f \<in> set fs'. fnName f = drop 5 path \<and> resolveReturnType postMethod = Inr (returnType f)"
  using assms
  by (auto simp add: parseFunction_def Let_def split: if_splits option.splits sum.splits)

lemma foldE_parseFunction_has:
  assumes "foldE parseFunction es fs = Inr fs'"
    and "(path, methods) \<in> set es"
    and "startsWith path ''/rpc/''"
    and "truthyVal (orElse (getProp methods ''post'') (getProp methods ''get'')) = Some postMethod"
  shows "\<exists>f \<in> set fs'. fnName f = drop 5 path \<and> resolveReturnType postMethod = Inr (returnType f)"
  using assms(1,2)
proof (induction es arbitrary: fs)
  case Nil
  then show ?case by simp
next
  case (Cons e es)
  then obtain fs1 where 1: "parseFunction e fs = Inr fs1" and 2: "foldE parseFunction es fs1 = Inr fs'"
    by (auto split: sum.splits)
  show ?case
  proof (cases "e = (path, methods)")
    case True
    with 1 parseFunction_adds [OF _ assms(3,4)]
    obtain f where "f \<in> set fs1" "fnName f = drop 5 path"
      "resolveReturnType postMethod = Inr (returnType f)" by blast
    with foldE_parseFunction_keeps [OF 2] show ?thesis by blast
  next
    case False
    with Cons.prems(2) have "(path, methods) \<in> set es" by simp
    from Cons.IH [OF 2 this] show ?thesis .
  qed
qed

lemma parseOpenAPISpec_functions:
  assumes "parseOpenAPISpec spec = Inr cat"
    and "truthyVal (getProp spec ''paths'') = Some paths"
  shows "foldE parseFunction (entries paths) [] = Inr (functions' cat)"
proof -
  have "truthy spec"
    using assms(2) by (cases spec) (auto simp add: truthyVal_def parseIndex_def isDigit_def)
  with assms show ?thesis
    by (auto simp add: parseOpenAPISpec_def Let_def split: sum.splits)
qed

text \<open>
  C9, as the code has it. When the parser returns a catalog, every function path with an
  operation (\<open>post\<close>, else \<open>get\<close>) has a function in the catalog, named by the path
  without \<open>/rpc/\<close>, whose return type is: \<open>void\<close> when the operation has no schema for
  the response 200; otherwise the type name of the schema's \<open>$ref\<close>; else, for the type
  \<open>array\<close> with items, the type name of the items' \<open>$ref\<close> or else the string of the
  items' type (the type itself when it is a string, \<open>any\<close> when there is none), followed
  by \<open>[]\<close>; else the schema's type; else \<open>json\<close>.
\<close>

theorem returnType_resolution:
  assumes "parseOpenAPISpec spec = Inr cat"
    and "truthyVal (getProp spec ''paths'') = Some paths"
    and "(path, methods) \<in> set (entries paths)"
    and "startsWith path ''/rpc/''"
    and "truthyVal (orElse (getProp methods ''post'') (getProp methods ''get'')) = Some postMethod"
    and "schema = truthyVal (optProp (optProp (getProp postMethod ''responses'') ''200'') ''schema'')"
  shows "\<exists>f \<in> set (functions' cat). fnName f = drop 5 path
      \<and> (schema = None \<longrightarrow> returnType f = JStr ''void'')
      \<and> (\<forall>rs. schema = Some rs \<longrightarrow>
           (\<forall>r. truthyVal (getProp rs ''$ref'') = Some (JStr r) \<longrightarrow>
                  returnType f = JStr (refTypeName r))
         \<and> (truthyVal (getProp rs ''$ref'') = None \<longrightarrow>
             (\<forall>items. getProp rs ''type'' = Some (JStr ''array'')
                   \<and> truthyVal (getProp rs ''items'') = Some items \<longrightarrow>
                 (\<forall>r. truthyVal (getProp items ''$ref'') = Some (JStr r) \<longrightarrow>
                        returnType f = JStr (refTypeName r @ ''[]''))
               \<and> (truthyVal (getProp items ''$ref'') = None \<longrightarrow>
                    (\<exists>s. toStringJS (orDefault (getProp items ''type'') (JStr ''any'')) = Inr s
                         \<and> returnType f = JStr (s @ ''[]''))
                  \<and> (\<forall>t. truthyVal (getProp items ''type'') = Some (JStr t) \<longrightarrow>
                         returnType f = JStr (t @ ''[]''))
                  \<and> (truthyVal (getProp items ''type'') = None \<longrightarrow>
                         returnType f = JStr ''any[]'')))
           \<and> (\<not> (getProp rs ''type'' = Some (JStr ''array'')
                   \<and> truthyVal (getProp rs ''items'') \<noteq> None) \<longrightarrow>
                 (\<forall>t. truthyVal (getProp rs ''type'') = Some t \<longrightarrow> returnType f = t)
               \<and> (truthyVal (getProp rs ''type'') = None \<longrightarrow> returnType f = JStr ''json''))))"
proof -
  from foldE_parseFunction_has [OF parseOpenAPISpec_functions [OF assms(1,2)] assms(3,4,5)]
  obtain f where f: "f \<in> set (functions' cat)" "fnName f = drop 5 path"
    and rt: "resolveReturnType postMethod = Inr (returnType f)" by blast
  let ?sch = "truthyVal (optProp (optProp (getProp postMethod ''responses'') ''200'') ''schema'')"
  have 1: "schema = None \<longrightarrow> returnType f = JStr ''void''"
    using rt assms(6) by (auto simp add: resolveReturnType_def)
  have 2: "returnType f = JStr (refTypeName r)"
    if "schema = Some rs" "truthyVal (getProp rs ''$ref'') = Some (JStr r)" for rs r
  proof -
    have s: "?sch = Some rs" using assms(6) that(1) by simp
    show ?thesis
      using rt that(2) by (simp add: resolveReturnType_def s refName_def refTypeName_def)
  qed
  have 3: "returnType f = JStr (refTypeName r @ ''[]'')"
    if "schema = Some rs" "truthyVal (getProp rs ''$ref'') = None"
      "getProp rs ''type'' = Some (JStr ''array'')" "truthyVal (getProp rs ''items'') = Some items"
      "truthyVal (getProp items ''$ref'') = Some (JStr r)" for rs items r
  proof -
    have s: "?sch = Some rs" using assms(6) that(1) by simp
    show ?thesis
      using rt that(2-5) by (simp add: resolveReturnType_def s refName_def refTypeName_def)
  qed
  have 4: "(\<exists>s. toStringJS (orDefault (getProp items ''type'') (JStr ''any'')) = Inr s
                \<and> returnType f = JStr (s @ ''[]''))
           \<and> (\<forall>t. truthyVal (getProp items ''type'') = Some (JStr t) \<longrightarrow>
                  returnType f = JStr (t @ ''[]''))
           \<and> (truthyVal (getProp items ''type'') = None \<longrightarrow> returnType f = JStr ''any[]'')"
    if "schema = Some rs" "truthyVal (getProp rs ''$ref'') = None"
      "getProp rs ''type'' = Some (JStr ''array'')" "truthyVal (getProp rs ''items'') = Some items"
      "truthyVal (getProp items ''$ref'') = None" for rs items
  proof -
    have s: "?sch = Some rs" using assms(6) that(1) by simp
    have g: "\<exists>s. toStringJS (orDefault (getProp items ''type'') (JStr ''any'')) = Inr s
                \<and> returnType f = JStr (s @ ''[]'')"
      using rt that(2-5) by (simp add: resolveReturnType_def s split: sum.splits)
    have t: "returnType f = JStr (t @ ''[]'')"
      if "truthyVal (getProp items ''type'') = Some (JStr t)" for t
      using g that by (auto simp add: orDefault_def)
    have a: "returnType f = JStr ''any[]''" if "truthyVal (getProp items ''type'') = None"
      using g that by (auto simp add: orDefault_def)
    show ?thesis using g t a by blast
  qed
  have 5: "returnType f = t"
    if "schema = Some rs" "truthyVal (getProp rs ''$ref'') = None"
      "\<not> (getProp rs ''type'' = Some (JStr ''array'') \<and> truthyVal (getProp rs ''items'') \<noteq> None)"
      "truthyVal (getProp rs ''type'') = Some t" for rs t
  proof -
    have s: "?sch = Some rs" using assms(6) that(1) by simp
    have n: "(if getProp rs ''type'' = Some (JStr ''array'')
              then truthyVal (getProp rs ''items'') else None) = None"
      using that(3) by auto
    show ?thesis
      using rt that(2,4) by (simp add: resolveReturnType_def s n)
  qed
  have 6: "returnType f = JStr ''json''"
    if "schema = Some rs" "truthyVal (getProp rs ''$ref'') = None"
      "\<not> (getProp rs ''type'' = Some (JStr ''array'') \<and> truthyVal (getProp rs ''items'') \<noteq> None)"
      "truthyVal (getProp rs ''type'') = None" for rs
  proof -
    have s: "?sch = Some rs" using assms(6) that(1) by simp
    have n: "(if getProp rs ''type'' = Some (JStr ''array'')
              then truthyVal (getProp rs ''items'') else None) = None"
      using that(3) by auto
    show ?thesis
      using rt that(2,4) by (simp add: resolveReturnType_def s n)
  qed
  show ?thesis
    using f 1 2 3 4 5 6 by (intro bexI [of _ f]) blast+
qed

text \<open>
  C9 as stated fails: a function whose operation declares no response schema gets the
  return type \<open>void\<close>, not \<open>json\<close>.
\<close>

theorem returnType_default_void:
  "parseOpenAPISpec (JObj [(''paths'', JObj [(''/rpc/f'', JObj [(''post'', JObj [])])])])
     = Inr \<lparr>tables = [],
            functions' = [\<lparr>fnName = ''f'', fnDescription = JStr [], parameters = [],
                           returnType = JStr ''void''\<rparr>],
            rawSpec = JObj [(''paths'', JObj [(''/rpc/f'', JObj [(''post'', JObj [])])])]\<rparr>"
  by code_simp

theorem returnType_resolution_witness:
  "parseOpenAPISpec (JObj [(''paths'', JObj [(''/rpc/get_users'', JObj [(''post'',
       JObj [(''responses'', JObj [(''200'', JObj [(''schema'',
         JObj [(''$ref'', JStr ''#/definitions/users'')])])])])])])])
     = Inr \<lparr>tables = [],
            functions' = [\<lparr>fnName = ''get_users'', fnDescription = JStr [], parameters = [],
                           returnType = JStr ''users''\<rparr>],
            rawSpec = JObj [(''paths'', JObj [(''/rpc/get_users'', JObj [(''post'',
              JObj [(''responses'', JObj [(''200'', JObj [(''schema'',
                JObj [(''$ref'', JStr ''#/definitions/users'')])])])])])])]\<rparr>
   \<and> startsWith ''/rpc/get_users'' ''/rpc/''
   \<and> refTypeName ''#/definitions/users'' = ''users''
   \<and> (\<exists>f \<in> set [\<lparr>fnName = ''get_users'', fnDescription = JStr [], parameters = [],
                     returnType = JStr ''users''\<rparr>].
         fnName f = ''get_users'' \<and> returnType f = JStr (refTypeName ''#/definitions/users''))"
proof -
  let ?rs = "JObj [(''$ref'', JStr ''#/definitions/users'')]"
  let ?pm = "JObj [(''responses'', JObj [(''200'', JObj [(''schema'', ?rs)])])]"
  let ?methods = "JObj [(''post'', ?pm)]"
  let ?paths = "JObj [(''/rpc/get_users'', ?methods)]"
  let ?doc = "JObj [(''paths'', ?paths)]"
  let ?fs = "[\<lparr>fnName = ''get_users'', fnDescription = JStr [], parameters = [],
               returnType = JStr ''users''\<rparr>]"
  let ?cat = "\<lparr>tables = [], functions' = ?fs, rawSpec = ?doc\<rparr>"
  have a1: "parseOpenAPISpec ?doc = Inr ?cat" by code_simp
  have a2: "truthyVal (getProp ?doc ''paths'') = Some ?paths" by (simp add: truthyVal_def)
  have a3: "(''/rpc/get_users'', ?methods) \<in> set (entries ?paths)" by simp
  have a4: "startsWith ''/rpc/get_users'' ''/rpc/''" by simp
  have a5: "truthyVal (orElse (getProp ?methods ''post'') (getProp ?methods ''get'')) = Some ?pm"
    by (simp add: truthyVal_def orElse_def)
  have a6: "Some ?rs = truthyVal (optProp (optProp (getProp ?pm ''responses'') ''200'') ''schema'')"
    by (simp add: truthyVal_def optProp_def)
  have a7: "truthyVal (getProp ?rs ''$ref'') = Some (JStr ''#/definitions/users'')"
    by (simp add: truthyVal_def)
  have n: "refTypeName ''#/definitions/users'' = ''users''" by code_simp
  note res = returnType_resolution [OF a1 a2 a3 a4 a5 a6]
  have e: "\<exists>f \<in> set ?fs. fnName f = ''get_users''
      \<and> returnType f = JStr (refTypeName ''#/definitions/users'')"
  proof (rule bexE [OF res])
    fix f
    assume f: "f \<in> set (functions' ?cat)"
      and c: "fnName f = drop 5 ''/rpc/get_users''
        \<and> (Some ?rs = None \<longrightarrow> returnType f = JStr ''void'')
        \<and> (\<forall>rs. Some ?rs = Some rs \<longrightarrow>
           (\<forall>r. truthyVal (getProp rs ''$ref'') = Some (JStr r) \<longrightarrow>
                  returnType f = JStr (refTypeName r))
         \<and> (truthyVal (getProp rs ''$ref'') = None \<longrightarrow>
             (\<forall>items. getProp rs ''type'' = Some (JStr ''array'')
                   \<and> truthyVal (getProp rs ''items'') = Some items \<longrightarrow>
                 (\<forall>r. truthyVal (getProp items ''$ref'') = Some (JStr r) \<longrightarrow>
                        returnType f = JStr (refTypeName r @ ''[]''))
               \<and> (truthyVal (getProp items ''$ref'') = None \<longrightarrow>
                    (\<exists>s. toStringJS (orDefault (getProp items ''type'') (JStr ''any'')) = Inr s
                         \<and> returnType f = JStr (s @ ''[]''))
                  \<and> (\<forall>t. truthyVal (getProp items ''type'') = Some (JStr t) \<longrightarrow>
                         returnType f = JStr (t @ ''[]''))
                  \<and> (truthyVal (getProp items ''type'') = None \<longrightarrow>
                         returnType f = JStr ''any[]'')))
           \<and> (\<not> (getProp rs ''type'' = Some (JStr ''array'')
                   \<and> truthyVal (getProp rs ''items'') \<noteq> None) \<longrightarrow>
                 (\<forall>t. truthyVal (getProp rs ''type'') = Some t \<longrightarrow> returnType f = t)
               \<and> (truthyVal (getProp rs ''type'') = None \<longrightarrow> returnType f = JStr ''json''))))"
    have nm: "fnName f = ''get_users''" using c by simp
    note c3 = c [THEN conjunct2, THEN conjunct2, rule_format, OF refl]
    note c4 = c3 [THEN conjunct1, rule_format, OF a7]
    have fin: "f \<in> set ?fs" using f by simp
    show ?thesis by (rule bexI [OF _ fin]) (simp only: nm c4)
  qed
  show ?thesis by (intro conjI a1 a4 n e)
qed

end
